theory Spec2Isabelle
  imports Main "HOL-Library.Word"
begin

unbundle bit_operations_syntax

section \<open>The VXLAN vport of the Open vSwitch datapath (datapath/vport-vxlan.c)\<close>

text \<open>
  The file implements five operations of a tunnel port: \<open>vxlan_tnl_create\<close>,
  \<open>vxlan_tnl_send\<close>, \<open>vxlan_rcv\<close>, \<open>vxlan_get_options\<close> and \<open>vxlan_get_name\<close>
  (and \<open>vxlan_tnl_destroy\<close>, about which nothing is stated here).  Each is embedded as a
  HOL function of the same name.  Kernel services the file calls are functions over an
  explicit kernel state that records every call, so that "this call is never made" is a
  statement about the record.
\<close>

subsection \<open>Constants of the kernel headers and the byte order of the host\<close>

text \<open>
  The constants below come from headers that are not part of the sources at hand
  (errno.h, if.h, ip.h, in.h, ip_tunnels.h, openvswitch.h).  They are parameters of the
  model, together with the byte order of the machine, so every statement holds for any
  value they may have.
\<close>

record platform =
  big_endian :: bool
  EINVAL :: int
  EMSGSIZE :: int
  IFNAMSIZ :: nat
  IP_DF :: "16 word"
  IPPROTO_UDP :: "8 word"
  TUNNEL_KEY :: "16 word"
  TUNNEL_DONT_FRAGMENT :: "16 word"
  OVS_TUNNEL_ATTR_DST_PORT :: "16 word"

text \<open>Byte reversal of a 16-, 32- and 64-bit value, the way the kernel's swab macros write it.\<close>

definition swab16 :: "16 word \<Rightarrow> 16 word" where
  "swab16 x = push_bit 8 (x AND 0x00ff) OR drop_bit 8 (x AND 0xff00)"

definition swab32 :: "32 word \<Rightarrow> 32 word" where
  "swab32 x = push_bit 24 (x AND 0x000000ff) OR push_bit 8 (x AND 0x0000ff00)
            OR drop_bit 8 (x AND 0x00ff0000) OR drop_bit 24 (x AND 0xff000000)"

definition swab64 :: "64 word \<Rightarrow> 64 word" where
  "swab64 x = push_bit 56 (x AND 0x00000000000000ff) OR push_bit 40 (x AND 0x000000000000ff00)
            OR push_bit 24 (x AND 0x0000000000ff0000) OR push_bit 8 (x AND 0x00000000ff000000)
            OR drop_bit 8 (x AND 0x000000ff00000000) OR drop_bit 24 (x AND 0x0000ff0000000000)
            OR drop_bit 40 (x AND 0x00ff000000000000) OR drop_bit 56 (x AND 0xff00000000000000)"

text \<open>
  A value of type \<open>__be16\<close>, \<open>__be32\<close> or \<open>__be64\<close> is the machine word whose bytes in
  memory are the big-endian encoding: on a big-endian host the conversions are the
  identity, on a little-endian host they reverse the bytes.
\<close>

definition htons :: "platform \<Rightarrow> 16 word \<Rightarrow> 16 word" where
  "htons P x = (if big_endian P then x else swab16 x)"

definition ntohs :: "platform \<Rightarrow> 16 word \<Rightarrow> 16 word" where
  "ntohs P x = (if big_endian P then x else swab16 x)"

definition htonl :: "platform \<Rightarrow> 32 word \<Rightarrow> 32 word" where
  "htonl P x = (if big_endian P then x else swab32 x)"

definition ntohl :: "platform \<Rightarrow> 32 word \<Rightarrow> 32 word" where
  "ntohl P x = (if big_endian P then x else swab32 x)"

definition cpu_to_be64 :: "platform \<Rightarrow> 64 word \<Rightarrow> 64 word" where
  "cpu_to_be64 P x = (if big_endian P then x else swab64 x)"

definition be64_to_cpu :: "platform \<Rightarrow> 64 word \<Rightarrow> 64 word" where
  "be64_to_cpu P x = (if big_endian P then x else swab64 x)"

subsection \<open>Data\<close>

text \<open>The fields of the outer IPv4 header that the vport reads.\<close>

record iphdr =
  ip_tos :: "8 word"
  ip_ttl :: "8 word"
  ip_saddr :: "32 word"
  ip_daddr :: "32 word"

text \<open>\<open>struct ovs_key_ipv4_tunnel\<close>: \<open>tun_id\<close> is a \<open>__be64\<close>, \<open>tun_flags\<close> a \<open>__be16\<close>.\<close>

record ovs_key_ipv4_tunnel =
  tun_id :: "64 word"
  ipv4_src :: "32 word"
  ipv4_dst :: "32 word"
  tun_flags :: "16 word"
  ipv4_tos :: "8 word"
  ipv4_ttl :: "8 word"

text \<open>A Netlink attribute: its type and its payload; \<open>nla_len\<close> is the payload's length in bytes.\<close>

record nlattr =
  nla_type :: "16 word"
  nla_payload :: "8 word list"

text \<open>The identifiers of the inner flow of a packet (addresses, protocol, ports).\<close>

record flow_ids =
  flow_src :: "32 word"
  flow_dst :: "32 word"
  flow_proto :: "8 word"
  flow_sport :: "16 word"
  flow_dport :: "16 word"

text \<open>
  \<open>struct sk_buff\<close>, with the parts the vport touches: the outer IP header of a received
  packet (\<open>ip_hdr(skb)\<close>), the tunnel key attached by the pipeline (\<open>OVS_CB(skb)->tun_key\<close>,
  \<open>None\<close> for the null pointer), \<open>mark\<close>, \<open>local_df\<close>, the inner frame and its flow, and,
  for a Netlink reply, the attributes written so far and the room left.
\<close>

record sk_buff =
  skb_iph :: iphdr
  skb_tun_key :: "ovs_key_ipv4_tunnel option"
  skb_mark :: "32 word"
  skb_local_df :: bool
  skb_flow :: flow_ids
  skb_data :: "8 word list"
  skb_attrs :: "nlattr list"
  skb_tailroom :: nat

text \<open>A network namespace, with its ephemeral port range (\<open>sysctl ip_local_port_range\<close>).\<close>

record net =
  ip_local_port_range :: "int \<times> int"

record datapath =
  dp_net :: net

text \<open>
  \<open>struct vxlan_sock\<close>: the address of the object, the port its UDP socket is bound to
  (\<open>vs->sock->sk\<close>, read by \<open>inet_sport\<close>, a \<open>__be16\<close>) and \<open>vs->data\<close>, the address of
  the vport the socket belongs to.
\<close>

record vxlan_sock =
  vs_addr :: nat
  vs_inet_sport :: "16 word"
  vs_data :: nat

text \<open>\<open>struct vxlan_port\<close>: the socket and the name, a character array of \<open>IFNAMSIZ\<close> bytes.\<close>

record vxlan_port =
  vs :: vxlan_sock
  name :: string

text \<open>\<open>struct vport\<close>: its address, its datapath and its private area.\<close>

record vport =
  vp_addr :: nat
  vp_dp :: datapath
  vp_priv :: vxlan_port

record vport_parms =
  parms_name :: string
  parms_options :: "nlattr list option"
  parms_dp :: datapath

text \<open>The arguments of one call of \<open>vxlan_xmit_skb\<close>, in the order of its parameters.\<close>

record xmit_args =
  xm_vs :: vxlan_sock
  xm_rt :: nat
  xm_skb :: sk_buff
  xm_src :: "32 word"
  xm_dst :: "32 word"
  xm_tos :: "8 word"
  xm_ttl :: "8 word"
  xm_df :: "16 word"
  xm_src_port :: "16 word"
  xm_dst_port :: "16 word"
  xm_vni :: "32 word"

subsection \<open>The kernel: state, record of calls, and what the environment answers\<close>

datatype call =
    Call_ovs_vport_alloc
  | Call_ovs_vport_free nat
  | Call_vxlan_sock_add net "16 word" nat
  | Call_find_route net "32 word" "32 word" "8 word" "8 word" "32 word"
  | Call_vxlan_xmit_skb xmit_args
  | Call_ip_rt_put nat
  | Call_ovs_vport_receive nat sk_buff ovs_key_ipv4_tunnel

text \<open>
  The state holds the addresses of the vport objects and of the VXLAN sockets that are
  allocated, and the calls made so far, oldest first.
\<close>

record kernel =
  live_vports :: "nat list"
  live_socks :: "nat list"
  calls :: "call list"

text \<open>
  What the services outside the file answer: whether an allocation or a socket open
  fails and with which (negative) error, the route found for a destination (with the
  source address it selects, written back through \<open>&saddr\<close>), the return value of the
  transmission, and the hash of a flow.
\<close>

record env =
  vport_alloc_err :: "int option"
  sock_add_err :: "net \<Rightarrow> 16 word \<Rightarrow> int option"
  find_route_res :: "net \<Rightarrow> 32 word \<Rightarrow> 32 word \<Rightarrow> 8 word \<Rightarrow> 8 word \<Rightarrow> 32 word \<Rightarrow> int + (nat \<times> 32 word)"
  xmit_res :: "xmit_args \<Rightarrow> int"
  flow_hash :: "flow_ids \<Rightarrow> 32 word"

definition log_call :: "call \<Rightarrow> kernel \<Rightarrow> kernel" where
  "log_call c k = k\<lparr>calls := calls k @ [c]\<rparr>"

text \<open>An address that is not in use.\<close>

definition fresh_addr :: "nat list \<Rightarrow> nat" where
  "fresh_addr xs = Suc (fold max xs 0)"

text \<open>
  Modelled from the spec: \<open>ovs_vport_alloc\<close> and \<open>ovs_vport_free\<close> (vport.c) are not among
  the sources.  Section 4.3 has creation allocate an endpoint object that is discarded
  again on failure: allocation either fails with an error or yields a new object, and
  freeing removes the object.
\<close>

definition ovs_vport_alloc :: "env \<Rightarrow> kernel \<Rightarrow> (int + nat) \<times> kernel" where
  "ovs_vport_alloc E k =
     (case vport_alloc_err E of
        Some e \<Rightarrow> (Inl e, log_call Call_ovs_vport_alloc k)
      | None \<Rightarrow>
          (let a = fresh_addr (live_vports k)
           in (Inr a, log_call Call_ovs_vport_alloc (k\<lparr>live_vports := live_vports k @ [a]\<rparr>))))"

definition ovs_vport_free :: "nat \<Rightarrow> kernel \<Rightarrow> kernel" where
  "ovs_vport_free a k = log_call (Call_ovs_vport_free a) (k\<lparr>live_vports := removeAll a (live_vports k)\<rparr>)"

text \<open>
  Modelled from the spec: \<open>vxlan_sock_add\<close> (declared in net/vxlan.h) is not among the
  sources.  Sections 4.2 and 6: it opens an underlay socket bound to the given port and
  registered with the receive callback and its argument, or fails with a socket error, in
  which case no socket exists afterwards.
\<close>

definition vxlan_sock_add :: "env \<Rightarrow> net \<Rightarrow> 16 word \<Rightarrow> nat \<Rightarrow> kernel \<Rightarrow> (int + vxlan_sock) \<times> kernel" where
  "vxlan_sock_add E n port data k =
     (case sock_add_err E n port of
        Some e \<Rightarrow> (Inl e, log_call (Call_vxlan_sock_add n port data) k)
      | None \<Rightarrow>
          (let a = fresh_addr (live_socks k)
           in (Inr \<lparr>vs_addr = a, vs_inet_sport = port, vs_data = data\<rparr>,
               log_call (Call_vxlan_sock_add n port data) (k\<lparr>live_socks := live_socks k @ [a]\<rparr>))))"

definition inet_sport :: "vxlan_sock \<Rightarrow> 16 word" where
  "inet_sport s = vs_inet_sport s"

definition find_route :: "env \<Rightarrow> net \<Rightarrow> 32 word \<Rightarrow> 32 word \<Rightarrow> 8 word \<Rightarrow> 8 word \<Rightarrow> 32 word \<Rightarrow> kernel
    \<Rightarrow> (int + (nat \<times> 32 word)) \<times> kernel" where
  "find_route E n saddr daddr proto tos mark k =
     (find_route_res E n saddr daddr proto tos mark,
      log_call (Call_find_route n saddr daddr proto tos mark) k)"

definition vxlan_xmit_skb :: "env \<Rightarrow> xmit_args \<Rightarrow> kernel \<Rightarrow> int \<times> kernel" where
  "vxlan_xmit_skb E a k = (xmit_res E a, log_call (Call_vxlan_xmit_skb a) k)"

definition ip_rt_put :: "nat \<Rightarrow> kernel \<Rightarrow> kernel" where
  "ip_rt_put rt k = log_call (Call_ip_rt_put rt) k"

definition ovs_vport_receive :: "nat \<Rightarrow> sk_buff \<Rightarrow> ovs_key_ipv4_tunnel \<Rightarrow> kernel \<Rightarrow> kernel" where
  "ovs_vport_receive vp skb tk k = log_call (Call_ovs_vport_receive vp skb tk) k"

definition ovs_dp_get_net :: "datapath \<Rightarrow> net" where
  "ovs_dp_get_net dp = dp_net dp"

definition inet_get_local_port_range :: "net \<Rightarrow> int \<times> int" where
  "inet_get_local_port_range n = ip_local_port_range n"

definition vxlan_vport :: "vport \<Rightarrow> vxlan_port" where
  "vxlan_vport vp = vp_priv vp"

subsection \<open>Netlink attributes and C strings\<close>

text \<open>\<open>nla_find_nested\<close>: the first attribute of the given type inside a nested attribute.\<close>

definition nla_find_nested :: "nlattr list \<Rightarrow> 16 word \<Rightarrow> nlattr option" where
  "nla_find_nested attrs ty = find (\<lambda>a. nla_type a = ty) attrs"

definition nla_len :: "nlattr \<Rightarrow> nat" where
  "nla_len a = length (nla_payload a)"


definition nla_get_u16 :: "platform \<Rightarrow> nlattr \<Rightarrow> 16 word" where
  "nla_get_u16 P a =
     (case nla_payload a of
        b0 # b1 # _ \<Rightarrow>
          (if big_endian P then push_bit 8 (ucast b0) OR ucast b1
           else push_bit 8 (ucast b1) OR ucast b0)
      | _ \<Rightarrow> 0)"



text \<open>
  \<open>strncpy dest src n\<close> leaves in the \<open>n\<close> bytes of \<open>dest\<close> the characters of the C string
  \<open>src\<close> (its bytes before the first NUL), cut to \<open>n\<close>, followed by NULs up to \<open>n\<close> bytes:
  when the string has \<open>n\<close> characters or more, no NUL is written.
\<close>

definition strncpy :: "string \<Rightarrow> nat \<Rightarrow> string" where
  "strncpy src n =
     (let s = takeWhile (\<lambda>c. c \<noteq> CHR 0x00) src
      in take n s @ replicate (n - length s) (CHR 0x00))"


subsection \<open>Helpers of the datapath that are not among the sources\<close>

text \<open>
  Modelled from the spec: \<open>ovs_flow_tun_key_init\<close> (flow.h) is not among the sources.
  Section 4.4: the decapsulator builds
  \<open>TunnelKey{src_addr=outer_src, dst_addr=outer_dst, tunnel_id=vni, tos=outer_tos, flags=KEY_PRESENT}\<close>
  from the outer IP header, the tunnel id and the flags it is given.  The spec names no
  source for the \<open>ttl\<close> field; it is taken from the outer header like \<open>tos\<close>.
\<close>

definition ovs_flow_tun_key_init :: "iphdr \<Rightarrow> 64 word \<Rightarrow> 16 word \<Rightarrow> ovs_key_ipv4_tunnel" where
  "ovs_flow_tun_key_init iph tid flags =
     \<lparr>tun_id = tid, ipv4_src = ip_saddr iph, ipv4_dst = ip_daddr iph,
      tun_flags = flags, ipv4_tos = ip_tos iph, ipv4_ttl = ip_ttl iph\<rparr>"

text \<open>
  Modelled from the spec: \<open>vxlan_src_port\<close> (declared in net/vxlan.h) is not among the
  sources.  Section 4.5, step 3: the underlay source port is selected "deterministically
  from the inner packet's flow identifiers", "constrained to a configured ephemeral
  range", and "the exact hash function is an implementation choice".  The hash is
  therefore a parameter (\<open>flow_hash\<close>); its 32 bits are scaled to the size of the range
  and added to the lower end.  The result is a \<open>__be16\<close>.
\<close>

definition vxlan_src_port :: "platform \<Rightarrow> env \<Rightarrow> 16 word \<Rightarrow> 16 word \<Rightarrow> sk_buff \<Rightarrow> 16 word" where
  "vxlan_src_port P E port_min port_max skb =
     (let range = (ucast port_max - ucast port_min) + 1 :: 32 word;
          hash = flow_hash E (skb_flow skb)
      in htons P (ucast (drop_bit 32 (ucast hash * ucast range :: 64 word)) + port_min))"

subsection \<open>The operations of vport-vxlan.c\<close>

text \<open>
  \<open>vxlan_rcv\<close>: called by the socket layer with the socket, the packet and the VNI field
  of the VXLAN header (a \<open>__be32\<close>).
\<close>

definition vxlan_rcv :: "platform \<Rightarrow> vxlan_sock \<Rightarrow> sk_buff \<Rightarrow> 32 word \<Rightarrow> kernel \<Rightarrow> kernel" where
  "vxlan_rcv P sock skb vx_vni k =
     (let vport = vs_data sock;
          iph = skb_iph skb;
          key = cpu_to_be64 P (ucast (drop_bit 8 (ntohl P vx_vni)));
          tun_key = ovs_flow_tun_key_init iph key (TUNNEL_KEY P)
      in ovs_vport_receive vport skb tun_key k)"


text \<open>
  \<open>vxlan_tnl_create\<close>: an error pointer is \<open>Inl\<close> of the (negative) error, a vport is
  \<open>Inr\<close>.  The vport's fields are written into the allocated object one by one in the C
  code; the model builds the object once the socket is there.
\<close>

definition vxlan_tnl_create :: "platform \<Rightarrow> env \<Rightarrow> vport_parms \<Rightarrow> kernel \<Rightarrow> (int + vport) \<times> kernel" where
  "vxlan_tnl_create P E parms k =
     (let n = ovs_dp_get_net (parms_dp parms)
      in case parms_options parms of
           None \<Rightarrow> (Inl (- EINVAL P), k)
         | Some options \<Rightarrow>
             (case nla_find_nested options (OVS_TUNNEL_ATTR_DST_PORT P) of
                None \<Rightarrow> (Inl (- EINVAL P), k)
              | Some a \<Rightarrow>
                  if nla_len a = 2 then
                    (let dst_port = nla_get_u16 P a
                     in case ovs_vport_alloc E k of
                          (Inl err, k1) \<Rightarrow> (Inl err, k1)
                        | (Inr vport, k1) \<Rightarrow>
                            (let name_buf = strncpy (parms_name parms) (IFNAMSIZ P)
                             in case vxlan_sock_add E n (htons P dst_port) vport k1 of
                                  (Inl err, k2) \<Rightarrow> (Inl err, ovs_vport_free vport k2)
                                | (Inr sock, k2) \<Rightarrow>
                                    (Inr \<lparr>vp_addr = vport, vp_dp = parms_dp parms,
                                          vp_priv = \<lparr>vs = sock, name = name_buf\<rparr>\<rparr>, k2)))
                  else (Inl (- EINVAL P), k)))"

text \<open>\<open>vxlan_tnl_send\<close>: returns what \<open>vxlan_xmit_skb\<close> returns, or a negative error.\<close>

definition vxlan_tnl_send :: "platform \<Rightarrow> env \<Rightarrow> vport \<Rightarrow> sk_buff \<Rightarrow> kernel \<Rightarrow> int \<times> kernel" where
  "vxlan_tnl_send P E vp skb k =
     (let n = ovs_dp_get_net (vp_dp vp);
          vxlan_port = vxlan_vport vp;
          dst_port = inet_sport (vs vxlan_port)
      in case skb_tun_key skb of
           None \<Rightarrow> (- EINVAL P, k)
         | Some tun_key \<Rightarrow>
             (case find_route E (ovs_dp_get_net (vp_dp vp)) (ipv4_src tun_key) (ipv4_dst tun_key)
                     (IPPROTO_UDP P) (ipv4_tos tun_key) (skb_mark skb) k of
                (Inl err, k1) \<Rightarrow> (err, k1)
              | (Inr (rt, saddr), k1) \<Rightarrow>
                  (let df = (if tun_flags tun_key AND TUNNEL_DONT_FRAGMENT P \<noteq> 0
                             then htons P (IP_DF P) else 0);
                       skb1 = skb\<lparr>skb_local_df := True\<rparr>;
                       (port_min, port_max) = inet_get_local_port_range n;
                       src_port = vxlan_src_port P E (word_of_int port_min) (word_of_int port_max) skb1;
                       (err, k2) = vxlan_xmit_skb E
                          \<lparr>xm_vs = vs vxlan_port, xm_rt = rt, xm_skb = skb1,
                           xm_src = saddr, xm_dst = ipv4_dst tun_key,
                           xm_tos = ipv4_tos tun_key, xm_ttl = ipv4_ttl tun_key, xm_df = df,
                           xm_src_port = src_port, xm_dst_port = dst_port,
                           xm_vni = htonl P (ucast (push_bit 8 (be64_to_cpu P (tun_id tun_key))))\<rparr> k1
                   in if err < 0 then (err, ip_rt_put rt k2) else (err, k2))))"


subsection \<open>Reading the record of calls\<close>

text \<open>The calls made between two states, and what was handed to the transmission and to the pipeline.\<close>

definition new_calls :: "kernel \<Rightarrow> kernel \<Rightarrow> call list" where
  "new_calls k k' = drop (length (calls k)) (calls k')"

fun xmit_calls :: "call list \<Rightarrow> xmit_args list" where
  "xmit_calls [] = []"
| "xmit_calls (Call_vxlan_xmit_skb a # cs) = a # xmit_calls cs"
| "xmit_calls (_ # cs) = xmit_calls cs"

fun received :: "call list \<Rightarrow> (nat \<times> sk_buff \<times> ovs_key_ipv4_tunnel) list" where
  "received [] = []"
| "received (Call_ovs_vport_receive vp skb tk # cs) = (vp, skb, tk) # received cs"
| "received (_ # cs) = received cs"

text \<open>The arguments \<open>vxlan_tnl_send\<close> hands to \<open>vxlan_xmit_skb\<close> once the route is found.\<close>

definition send_args :: "platform \<Rightarrow> env \<Rightarrow> vport \<Rightarrow> sk_buff \<Rightarrow> ovs_key_ipv4_tunnel \<Rightarrow> nat \<Rightarrow> 32 word \<Rightarrow> xmit_args" where
  "send_args P E vp skb tk rt sa =
     \<lparr>xm_vs = vs (vp_priv vp), xm_rt = rt, xm_skb = skb\<lparr>skb_local_df := True\<rparr>,
      xm_src = sa, xm_dst = ipv4_dst tk, xm_tos = ipv4_tos tk, xm_ttl = ipv4_ttl tk,
      xm_df = (if tun_flags tk AND TUNNEL_DONT_FRAGMENT P \<noteq> 0 then htons P (IP_DF P) else 0),
      xm_src_port = vxlan_src_port P E (word_of_int (fst (ip_local_port_range (dp_net (vp_dp vp)))))
                      (word_of_int (snd (ip_local_port_range (dp_net (vp_dp vp))))) (skb\<lparr>skb_local_df := True\<rparr>),
      xm_dst_port = vs_inet_sport (vs (vp_priv vp)),
      xm_vni = htonl P (ucast (push_bit 8 (be64_to_cpu P (tun_id tk))))\<rparr>"

subsection \<open>A concrete machine and concrete inputs\<close>

text \<open>
  A little-endian Linux host with the values of its headers, a kernel in which nothing
  fails, and the end-to-end scenario of the specification: the port \<open>vxlan0\<close> on UDP port
  4789 and a packet for tunnel 5000 from 10.0.0.1 to 10.0.0.2 that must not be fragmented.
\<close>

definition linux_le :: platform where
  "linux_le = \<lparr>big_endian = False, EINVAL = 22, EMSGSIZE = 90, IFNAMSIZ = 16,
     IP_DF = 0x4000, IPPROTO_UDP = 17, TUNNEL_KEY = 0x0400, TUNNEL_DONT_FRAGMENT = 0x0001,
     OVS_TUNNEL_ATTR_DST_PORT = 1\<rparr>"

definition env_ok :: env where
  "env_ok = \<lparr>vport_alloc_err = None, sock_add_err = (\<lambda>n p. None),
     find_route_res = (\<lambda>n s d p t m. Inr (1, 0x0A000001)), xmit_res = (\<lambda>a. 0),
     flow_hash = (\<lambda>f. push_bit 16 (ucast (flow_sport f)) OR ucast (flow_dport f))\<rparr>"

definition env_no_sock :: env where
  "env_no_sock = env_ok\<lparr>sock_add_err := (\<lambda>n p. Some (- 98))\<rparr>"

definition net0 :: net where
  "net0 = \<lparr>ip_local_port_range = (32768, 61000)\<rparr>"

definition dp0 :: datapath where
  "dp0 = \<lparr>dp_net = net0\<rparr>"

definition kernel0 :: kernel where
  "kernel0 = \<lparr>live_vports = [], live_socks = [], calls = []\<rparr>"


definition dst_port_4789 :: nlattr where
  "dst_port_4789 = \<lparr>nla_type = 1, nla_payload = [0xB5, 0x12]\<rparr>"

definition parms_vxlan0 :: vport_parms where
  "parms_vxlan0 = \<lparr>parms_name = ''vxlan0'', parms_options = Some [dst_port_4789], parms_dp = dp0\<rparr>"


definition parms_wide_port :: vport_parms where
  "parms_wide_port = \<lparr>parms_name = ''vxlan0'',
     parms_options = Some [\<lparr>nla_type = 1, nla_payload = [0xB5, 0x12, 0, 0]\<rparr>], parms_dp = dp0\<rparr>"

definition vport0 :: vport where
  "vport0 = \<lparr>vp_addr = 1, vp_dp = dp0,
     vp_priv = \<lparr>vs = \<lparr>vs_addr = 1, vs_inet_sport = 0xB512, vs_data = 1\<rparr>,
                name = ''vxlan0'' @ replicate 10 (CHR 0x00)\<rparr>\<rparr>"

definition tun_key0 :: ovs_key_ipv4_tunnel where
  "tun_key0 = \<lparr>tun_id = 0x8813000000000000, ipv4_src = 0x0A000001, ipv4_dst = 0x0A000002,
     tun_flags = 0x0001, ipv4_tos = 0, ipv4_ttl = 64\<rparr>"

definition flow0 :: flow_ids where
  "flow0 = \<lparr>flow_src = 0xC0A80001, flow_dst = 0xC0A80002, flow_proto = 6,
     flow_sport = 40000, flow_dport = 80\<rparr>"

definition skb0 :: sk_buff where
  "skb0 = \<lparr>skb_iph = \<lparr>ip_tos = 0, ip_ttl = 64, ip_saddr = 0x0A000002, ip_daddr = 0x0A000001\<rparr>,
     skb_tun_key = Some tun_key0, skb_mark = 0, skb_local_df = False, skb_flow = flow0,
     skb_data = [], skb_attrs = [], skb_tailroom = 64\<rparr>"

section \<open>Auxiliary facts\<close>

lemma byte_masks16:
  "(0x00ff :: 16 word) = mask 8" "(0xff00 :: 16 word) = push_bit 8 (mask 8)"
  by (simp_all add: mask_eq_exp_minus_1)

lemma byte_masks32:
  "(0x000000ff :: 32 word) = mask 8" "(0x0000ff00 :: 32 word) = push_bit 8 (mask 8)"
  "(0x00ff0000 :: 32 word) = push_bit 16 (mask 8)" "(0xff000000 :: 32 word) = push_bit 24 (mask 8)"
  by (simp_all add: mask_eq_exp_minus_1)

lemma byte_masks64:
  "(0x00000000000000ff :: 64 word) = mask 8" "(0x000000000000ff00 :: 64 word) = push_bit 8 (mask 8)"
  "(0x0000000000ff0000 :: 64 word) = push_bit 16 (mask 8)" "(0x00000000ff000000 :: 64 word) = push_bit 24 (mask 8)"
  "(0x000000ff00000000 :: 64 word) = push_bit 32 (mask 8)" "(0x0000ff0000000000 :: 64 word) = push_bit 40 (mask 8)"
  "(0x00ff000000000000 :: 64 word) = push_bit 48 (mask 8)" "(0xff00000000000000 :: 64 word) = push_bit 56 (mask 8)"
  by (simp_all add: mask_eq_exp_minus_1)

lemma swab16_bit: "bit (swab16 x) n \<longleftrightarrow> (if n < 8 then bit x (n + 8) else n < 16 \<and> bit x (n - 8))"
  unfolding swab16_def byte_masks16
  by (auto simp add: bit_simps ac_simps)

lemma swab16_swab16: "swab16 (swab16 x) = x"
  by (rule bit_word_eqI) (auto simp add: swab16_bit)

lemma swab32_bit: "bit (swab32 x) n \<longleftrightarrow>
   (if n < 8 then bit x (n + 24) else if n < 16 then bit x (n + 8)
    else if n < 24 then bit x (n - 8) else n < 32 \<and> bit x (n - 24))"
  unfolding swab32_def byte_masks32
  by (auto simp add: bit_simps ac_simps)

lemma swab32_swab32: "swab32 (swab32 x) = x"
  by (rule bit_word_eqI) (auto simp add: swab32_bit)

lemma bit_push_byte64:
  "bit (push_bit k (x AND push_bit j (mask 8)) :: 64 word) n \<longleftrightarrow>
     n < 64 \<and> k \<le> n \<and> j \<le> n - k \<and> n - k < j + 8 \<and> bit x (n - k)"
  by (auto simp add: bit_simps)

lemma bit_drop_byte64:
  "bit (drop_bit k (x AND push_bit j (mask 8)) :: 64 word) n \<longleftrightarrow>
     j \<le> n + k \<and> n + k < j + 8 \<and> bit x (n + k)"
  using bit_imp_le_length [of x "k + n"]
  by (auto simp add: bit_simps ac_simps)

lemma bit_push_byte64_0:
  "bit (push_bit k (x AND mask 8) :: 64 word) n \<longleftrightarrow>
     n < 64 \<and> k \<le> n \<and> n - k < 8 \<and> bit x (n - k)"
  by (auto simp add: bit_simps)

lemma swab64_bit: "bit (swab64 x) n \<longleftrightarrow>
   (if n < 8 then bit x (n + 56) else if n < 16 then bit x (n + 40)
    else if n < 24 then bit x (n + 24) else if n < 32 then bit x (n + 8)
    else if n < 40 then bit x (n - 8) else if n < 48 then bit x (n - 24)
    else if n < 56 then bit x (n - 40) else n < 64 \<and> bit x (n - 56))"
  unfolding swab64_def byte_masks64 bit_or_iff bit_push_byte64 bit_drop_byte64 bit_push_byte64_0
  by (auto dest: bit_imp_le_length)

lemma swab64_swab64: "swab64 (swab64 x) = x"
proof (rule bit_word_eqI)
  fix n assume "n < LENGTH(64)"
  then consider "n < 8" | "8 \<le> n" "n < 16" | "16 \<le> n" "n < 24" | "24 \<le> n" "n < 32"
    | "32 \<le> n" "n < 40" | "40 \<le> n" "n < 48" | "48 \<le> n" "n < 56" | "56 \<le> n" "n < 64"
    by fastforce
  then show "bit (swab64 (swab64 x)) n = bit x n"
    by cases (auto simp add: swab64_bit)
qed

lemma ntohs_htons: "ntohs P (htons P x) = x"
  by (simp add: ntohs_def htons_def swab16_swab16)

lemma ntohl_htonl: "ntohl P (htonl P x) = x"
  by (simp add: ntohl_def htonl_def swab32_swab32)

lemma be64_to_cpu_cpu_to_be64: "be64_to_cpu P (cpu_to_be64 P x) = x"
  by (simp add: be64_to_cpu_def cpu_to_be64_def swab64_swab64)

lemma cpu_to_be64_be64_to_cpu: "cpu_to_be64 P (be64_to_cpu P x) = x"
  by (simp add: be64_to_cpu_def cpu_to_be64_def swab64_swab64)

lemma htons_eq_0_iff: "htons P x = 0 \<longleftrightarrow> x = 0"
proof
  assume "htons P x = 0"
  then have "ntohs P (htons P x) = ntohs P 0" by simp
  then show "x = 0" by (simp add: ntohs_htons) (simp add: ntohs_def swab16_def)
next
  assume "x = 0" then show "htons P x = 0" by (simp add: htons_def swab16_def)
qed

lemma new_calls_log: "new_calls k (k\<lparr>calls := calls k @ cs\<rparr>) = cs"
  by (simp add: new_calls_def)

lemma new_calls_same: "new_calls k k = []"
  by (simp add: new_calls_def)

lemma send_routed:
  assumes "skb_tun_key skb = Some tk"
    and "find_route_res E (dp_net (vp_dp vp)) (ipv4_src tk) (ipv4_dst tk) (IPPROTO_UDP P)
           (ipv4_tos tk) (skb_mark skb) = Inr (rt, sa)"
  shows "vxlan_tnl_send P E vp skb k =
     (xmit_res E (send_args P E vp skb tk rt sa),
      k\<lparr>calls := calls k @
          [Call_find_route (dp_net (vp_dp vp)) (ipv4_src tk) (ipv4_dst tk) (IPPROTO_UDP P)
             (ipv4_tos tk) (skb_mark skb),
           Call_vxlan_xmit_skb (send_args P E vp skb tk rt sa)] @
          (if xmit_res E (send_args P E vp skb tk rt sa) < 0 then [Call_ip_rt_put rt] else [])\<rparr>)"
  using assms
  by (simp add: vxlan_tnl_send_def find_route_def vxlan_xmit_skb_def ip_rt_put_def log_call_def
      ovs_dp_get_net_def vxlan_vport_def inet_sport_def inet_get_local_port_range_def send_args_def
      Let_def split_beta)

lemma send_routed_xmit_calls:
  assumes "skb_tun_key skb = Some tk"
    and "find_route_res E (dp_net (vp_dp vp)) (ipv4_src tk) (ipv4_dst tk) (IPPROTO_UDP P)
           (ipv4_tos tk) (skb_mark skb) = Inr (rt, sa)"
  shows "xmit_calls (new_calls k (snd (vxlan_tnl_send P E vp skb k))) = [send_args P E vp skb tk rt sa]"
  by (simp add: send_routed [OF assms] new_calls_log)

lemma rcv_received:
  "received (new_calls k (vxlan_rcv P sock skb v k)) =
     [(vs_data sock, skb, ovs_flow_tun_key_init (skb_iph skb)
         (cpu_to_be64 P (ucast (drop_bit 8 (ntohl P v)))) (TUNNEL_KEY P))]"
  by (simp add: vxlan_rcv_def ovs_vport_receive_def log_call_def new_calls_log Let_def)

lemma vni_field_roundtrip:
  fixes t :: "64 word"
  assumes "t < 2 ^ 24"
  shows "(ucast (drop_bit 8 (ucast (push_bit 8 t) :: 32 word)) :: 64 word) = t"
proof -
  from assms have t: "t AND mask 24 = t"
    by (rule less_mask_eq)
  show ?thesis
  proof (rule bit_word_eqI)
    fix n assume "n < LENGTH(64)"
    have "bit t n \<longleftrightarrow> n < 24 \<and> bit t n"
      using t by (metis bit_and_iff bit_mask_iff)
    then show "bit (ucast (drop_bit 8 (ucast (push_bit 8 t) :: 32 word)) :: 64 word) n = bit t n"
      by (auto simp add: bit_simps)
  qed
qed

lemma shift_mod_nat: "(x * 2 ^ 8) mod 2 ^ 32 = (x mod 2 ^ 24) * 2 ^ 8" for x :: nat
proof -
  have "(x * 2 ^ 8) mod (2 ^ 24 * 2 ^ 8) = (x mod 2 ^ 24) * 2 ^ 8"
    by (simp only: mult_mod_left)
  then show ?thesis by simp
qed

lemma vni_field_unat:
  fixes t :: "64 word"
  shows "unat (ucast (push_bit 8 t) :: 32 word) = (unat t * 2 ^ 8) mod 2 ^ 32"
proof -
  have "unat (ucast (push_bit 8 t) :: 32 word) = take_bit 32 (unat (push_bit 8 t))"
    by (simp only: unsigned_ucast_eq [where ?'a = nat] len_bit0 len_num1 mult_numeral_1_right numeral_Bit0 numeral_One)
       simp
  also have "unat (push_bit 8 t) = take_bit 64 (push_bit 8 (unat t))"
    by (simp only: unsigned_push_bit_eq [where ?'a = nat]) simp
  also have "take_bit 32 (take_bit 64 (push_bit 8 (unat t))) = take_bit 32 (push_bit 8 (unat t))"
    by (simp add: min_def)
  also have "\<dots> = (unat t * 2 ^ 8) mod 2 ^ 32"
    by (simp only: take_bit_eq_mod push_bit_eq_mult)
  finally show ?thesis .
qed

lemma tun_id_drop_unat:
  fixes v :: "32 word"
  shows "unat (ucast (drop_bit 8 v) :: 64 word) = unat v div 2 ^ 8"
proof -
  have "unat (ucast (drop_bit 8 v) :: 64 word) = take_bit 64 (unat (drop_bit 8 v))"
    by (simp only: unsigned_ucast_eq [where ?'a = nat]) simp
  also have "unat (drop_bit 8 v) = drop_bit 8 (unat v)"
    by (simp add: unat_drop_bit_eq)
  also have "take_bit 64 (drop_bit 8 (unat v)) = drop_bit 8 (unat v)"
  proof -
    have "unat v < 2 ^ 32" using unsigned_less [of v] by simp
    then have "drop_bit 8 (unat v) < 2 ^ 64"
      by (simp add: drop_bit_eq_div)
    then show ?thesis by (simp add: take_bit_nat_eq_self_iff)
  qed
  finally show ?thesis by (simp add: drop_bit_eq_div)
qed


lemma unat_ucast_16_32: "unat (ucast x :: 32 word) = unat x" for x :: "16 word"
proof -
  have "unat x < 2 ^ 16" using unsigned_less [of x] by simp
  then have "unat x < 2 ^ 32" by simp
  then show ?thesis
    by (simp only: unsigned_ucast_eq [where ?'a = nat]) (simp add: take_bit_nat_eq_self_iff)
qed

lemma unat_ucast_32_64: "unat (ucast x :: 64 word) = unat x" for x :: "32 word"
proof -
  have "unat x < 2 ^ 32" using unsigned_less [of x] by simp
  then have "unat x < 2 ^ 64" by simp
  then show ?thesis
    by (simp only: unsigned_ucast_eq [where ?'a = nat]) (simp add: take_bit_nat_eq_self_iff)
qed

lemma scaled_hash_less:
  fixes h r :: nat
  assumes "h < 2 ^ 32"
  shows "h * r div 2 ^ 32 \<le> r - 1"
proof (cases "r = 0")
  case True then show ?thesis by simp
next
  case False
  have "h * r < 2 ^ 32 * r" using assms False by simp
  then have "h * r div 2 ^ 32 < r"
    by (simp add: less_mult_imp_div_less mult.commute)
  then show ?thesis by simp
qed

lemma scaled_port_unat:
  fixes pmin pmax :: "16 word" and hash :: "32 word"
  assumes "pmin \<le> pmax"
  shows "unat (ucast (drop_bit 32 (ucast hash * ucast ((ucast pmax - ucast pmin) + 1 :: 32 word) :: 64 word)) + pmin)
         = unat pmin + unat hash * (unat pmax - unat pmin + 1) div 2 ^ 32"
proof -
  define lo hi h where "lo = unat pmin" and "hi = unat pmax" and "h = unat hash"
  have le: "lo \<le> hi" using assms by (simp add: lo_def hi_def word_le_nat_alt)
  have hi: "hi < 2 ^ 16" using unsigned_less [of pmax] by (simp add: hi_def)
  have h: "h < 2 ^ 32" using unsigned_less [of hash] by (simp add: h_def)
  define r where "r = hi - lo + 1"
  have r: "r \<le> 2 ^ 16" using le hi by (simp add: r_def)
  have ucle: "(ucast pmin :: 32 word) \<le> ucast pmax"
    using le by (simp add: word_le_nat_alt unat_ucast_16_32 lo_def hi_def)
  have d: "unat (ucast pmax - ucast pmin :: 32 word) = hi - lo"
    using ucle by (simp add: unat_sub unat_ucast_16_32 lo_def hi_def)
  have "unat (ucast pmax - ucast pmin :: 32 word) + unat (1 :: 32 word) < 2 ^ LENGTH(32)"
    using d hi by simp
  then have range: "unat ((ucast pmax - ucast pmin) + 1 :: 32 word) = r"
    using d by (simp only: unat_add_lem [THEN iffD1] r_def) simp
  have "h * r \<le> 2 ^ 32 * 2 ^ 16"
    using h r by (intro mult_mono) simp_all
  then have hr: "h * r < 2 ^ 64" by simp
  have "unat (ucast hash :: 64 word) * unat (ucast ((ucast pmax - ucast pmin) + 1 :: 32 word) :: 64 word) < 2 ^ LENGTH(64)"
    using hr by (simp add: unat_ucast_32_64 range h_def)
  then have prod: "unat (ucast hash * ucast ((ucast pmax - ucast pmin) + 1 :: 32 word) :: 64 word) = h * r"
    by (simp only: unat_mult_lem [THEN iffD1] unat_ucast_32_64 range h_def)
  define q where "q = h * r div 2 ^ 32"
  have q: "q \<le> r - 1" unfolding q_def using h by (rule scaled_hash_less)
  have dq: "unat (drop_bit 32 (ucast hash * ucast ((ucast pmax - ucast pmin) + 1 :: 32 word) :: 64 word)) = q"
    by (simp only: unat_drop_bit_eq prod) (simp add: q_def drop_bit_eq_div)
  have q16: "q < 2 ^ 16" using q r by (simp add: r_def)
  have uq: "unat (ucast (drop_bit 32 (ucast hash * ucast ((ucast pmax - ucast pmin) + 1 :: 32 word) :: 64 word)) :: 16 word) = q"
    using q16 by (simp only: unsigned_ucast_eq [where ?'a = nat] dq) (simp add: take_bit_nat_eq_self_iff)
  have "q + lo < 2 ^ 16" using q le hi by (simp add: r_def)
  then have "unat (ucast (drop_bit 32 (ucast hash * ucast ((ucast pmax - ucast pmin) + 1 :: 32 word) :: 64 word)) :: 16 word)
      + unat pmin < 2 ^ LENGTH(16)"
    by (simp add: uq lo_def)
  then have "unat (ucast (drop_bit 32 (ucast hash * ucast ((ucast pmax - ucast pmin) + 1 :: 32 word) :: 64 word)) + pmin)
      = q + lo"
    by (simp only: unat_add_lem [THEN iffD1] uq lo_def)
  then show ?thesis by (simp add: q_def r_def lo_def hi_def h_def)
qed

lemma scaled_port_bounds:
  fixes pmin pmax :: "16 word" and hash :: "32 word"
  assumes "pmin \<le> pmax"
  shows "unat pmin \<le> unat (ucast (drop_bit 32 (ucast hash * ucast ((ucast pmax - ucast pmin) + 1 :: 32 word) :: 64 word)) + pmin)
       \<and> unat (ucast (drop_bit 32 (ucast hash * ucast ((ucast pmax - ucast pmin) + 1 :: 32 word) :: 64 word)) + pmin) \<le> unat pmax"
proof -
  have le: "unat pmin \<le> unat pmax" using assms by (simp add: word_le_nat_alt)
  have h: "unat hash < 2 ^ 32" using unsigned_less [of hash] by simp
  have "unat hash * (unat pmax - unat pmin + 1) div 2 ^ 32 \<le> (unat pmax - unat pmin + 1) - 1"
    using h by (rule scaled_hash_less)
  then show ?thesis using le by (simp add: scaled_port_unat [OF assms])
qed


lemma vni_field_congruent:
  fixes t t' :: "64 word"
  assumes "unat t mod 2 ^ 24 = unat t' mod 2 ^ 24"
  shows "(ucast (push_bit 8 t) :: 32 word) = ucast (push_bit 8 t')"
proof -
  have "unat (ucast (push_bit 8 t) :: 32 word) = unat (ucast (push_bit 8 t') :: 32 word)"
    using assms by (simp only: vni_field_unat shift_mod_nat)
  then show ?thesis by (rule word_unat_eq_iff [THEN iffD2])
qed


lemma fold_max_ge: "x \<in> set xs \<Longrightarrow> x \<le> fold max xs (a :: nat)"
  by (simp add: Max.set_eq_fold [symmetric])

lemma fresh_addr_fresh: "fresh_addr xs \<notin> set xs"
  using fold_max_ge [of "fresh_addr xs" xs 0] by (auto simp add: fresh_addr_def)



lemma uint_port: "0 \<le> p \<Longrightarrow> p \<le> 65535 \<Longrightarrow> uint (word_of_int p :: 16 word) = p"
  by (simp add: uint_word_of_int)

lemma src_port_bounds:
  assumes "0 \<le> port_min" and "port_min \<le> port_max" and "port_max \<le> 65535"
  shows "port_min \<le> uint (ntohs P (vxlan_src_port P E (word_of_int port_min) (word_of_int port_max) skb))
       \<and> uint (ntohs P (vxlan_src_port P E (word_of_int port_min) (word_of_int port_max) skb)) \<le> port_max"
proof -
  let ?lo = "word_of_int port_min :: 16 word" and ?hi = "word_of_int port_max :: 16 word"
  have lo: "uint ?lo = port_min" using assms by (simp add: uint_port)
  have hi: "uint ?hi = port_max" using assms by (simp add: uint_port)
  have le: "?lo \<le> ?hi" using assms(2) by (simp add: word_le_def lo hi)
  let ?p = "ucast (drop_bit 32 (ucast (flow_hash E (skb_flow skb)) * ucast ((ucast ?hi - ucast ?lo) + 1 :: 32 word) :: 64 word)) + ?lo"
  have p: "ntohs P (vxlan_src_port P E ?lo ?hi skb) = ?p"
    by (simp add: vxlan_src_port_def Let_def ntohs_htons)
  from scaled_port_bounds [OF le, of "flow_hash E (skb_flow skb)"]
  have "uint ?lo \<le> uint ?p \<and> uint ?p \<le> uint ?hi"
    by (simp only: uint_nat of_nat_le_iff)
  then show ?thesis
    unfolding p lo hi .
qed


section \<open>The claims\<close>

text \<open>
  C1.  Encapsulation followed by decapsulation is the identity on the VNI.  Whenever
  \<open>vxlan_tnl_send\<close> finds a tunnel key whose tunnel id fits in 24 bits and a route, it makes
  exactly one call of \<open>vxlan_xmit_skb\<close>; the VNI field it passes, read in network order, is
  the tunnel id shifted left by 8; and \<open>vxlan_rcv\<close>, given that field on any socket, packet
  and state, delivers a tunnel key with the tunnel id of the key that was sent.
\<close>

theorem send_then_rcv_recovers_tunnel_id:
  assumes "skb_tun_key skb = Some tk"
    and "find_route_res E (dp_net (vp_dp vp)) (ipv4_src tk) (ipv4_dst tk) (IPPROTO_UDP P)
           (ipv4_tos tk) (skb_mark skb) = Inr (rt, sa)"
    and "be64_to_cpu P (tun_id tk) < 2 ^ 24"
  shows "\<exists>a. xmit_calls (new_calls k (snd (vxlan_tnl_send P E vp skb k))) = [a]
           \<and> ntohl P (xm_vni a) = push_bit 8 (ucast (be64_to_cpu P (tun_id tk)))
           \<and> (\<forall>sock skb' k0. map (\<lambda>(v, s, key). tun_id key)
                  (received (new_calls k0 (vxlan_rcv P sock skb' (xm_vni a) k0))) = [tun_id tk])"
proof -
  let ?a = "send_args P E vp skb tk rt sa"
  have 1: "xmit_calls (new_calls k (snd (vxlan_tnl_send P E vp skb k))) = [?a]"
    using assms(1,2) by (rule send_routed_xmit_calls)
  have vni: "ntohl P (xm_vni ?a) = ucast (push_bit 8 (be64_to_cpu P (tun_id tk)))"
    by (simp add: send_args_def ntohl_htonl)
  have 2: "ntohl P (xm_vni ?a) = push_bit 8 (ucast (be64_to_cpu P (tun_id tk)))"
    unfolding vni by (rule bit_word_eqI) (auto simp add: bit_simps)
  have "cpu_to_be64 P (ucast (drop_bit 8 (ntohl P (xm_vni ?a)))) = tun_id tk"
    unfolding vni by (simp add: vni_field_roundtrip [OF assms(3)] cpu_to_be64_be64_to_cpu)
  then have 3: "map (\<lambda>(v, s, key). tun_id key)
      (received (new_calls k0 (vxlan_rcv P sock skb' (xm_vni ?a) k0))) = [tun_id tk]" for sock skb' k0
    by (simp add: rcv_received ovs_flow_tun_key_init_def)
  from 1 2 3 show ?thesis by blast
qed

text \<open>
  The scenario of the specification: tunnel id 5000 goes out as the field \<open>0x138800\<close> and
  comes back as 5000.
\<close>

theorem send_then_rcv_recovers_tunnel_id_witness:
  "skb_tun_key skb0 = Some tun_key0
   \<and> be64_to_cpu linux_le (tun_id tun_key0) = 5000
   \<and> (\<exists>a. xmit_calls (new_calls kernel0 (snd (vxlan_tnl_send linux_le env_ok vport0 skb0 kernel0))) = [a]
           \<and> ntohl linux_le (xm_vni a) = 0x138800
           \<and> map (\<lambda>(v, s, key). be64_to_cpu linux_le (tun_id key))
                  (received (new_calls kernel0 (vxlan_rcv linux_le (vs (vp_priv vport0)) skb0 (xm_vni a) kernel0))) = [5000])"
proof -
  have h1: "skb_tun_key skb0 = Some tun_key0" by (simp add: skb0_def)
  have h2: "find_route_res env_ok (dp_net (vp_dp vport0)) (ipv4_src tun_key0) (ipv4_dst tun_key0)
      (IPPROTO_UDP linux_le) (ipv4_tos tun_key0) (skb_mark skb0) = Inr (1, 0x0A000001)"
    by (simp add: env_ok_def)
  have id: "be64_to_cpu linux_le (tun_id tun_key0) = 5000"
    by (simp add: be64_to_cpu_def linux_le_def tun_key0_def swab64_def)
  have h3: "be64_to_cpu linux_le (tun_id tun_key0) < 2 ^ 24"
    unfolding id by simp
  obtain a where a: "xmit_calls (new_calls kernel0 (snd (vxlan_tnl_send linux_le env_ok vport0 skb0 kernel0))) = [a]"
    "ntohl linux_le (xm_vni a) = push_bit 8 (ucast (be64_to_cpu linux_le (tun_id tun_key0)))"
    "\<forall>sock skb' k0. map (\<lambda>(v, s, key). tun_id key)
        (received (new_calls k0 (vxlan_rcv linux_le sock skb' (xm_vni a) k0))) = [tun_id tun_key0]"
    using send_then_rcv_recovers_tunnel_id [OF h1 h2 h3, of kernel0] by blast
  have "map (\<lambda>(v, s, key). tun_id key)
        (received (new_calls kernel0 (vxlan_rcv linux_le (vs (vp_priv vport0)) skb0 (xm_vni a) kernel0))) = [tun_id tun_key0]"
    using a(3) by blast
  then have r: "map (\<lambda>(v, s, key). be64_to_cpu linux_le (tun_id key))
        (received (new_calls kernel0 (vxlan_rcv linux_le (vs (vp_priv vport0)) skb0 (xm_vni a) kernel0))) = [5000]"
    by (simp add: rcv_received id)
  have v: "ntohl linux_le (xm_vni a) = 0x138800"
    unfolding a(2) id by simp
  show ?thesis
    by (intro conjI exI [of _ a]) (fact h1 id a(1) v r)+
qed

text \<open>
  C2.  For every inbound packet \<open>vxlan_rcv\<close> makes exactly one call, the delivery to the
  pipeline of the vport of the socket, the packet as it came and a tunnel key.  The tunnel
  id of the key is the VNI field, read in network order, shifted right by 8; source,
  destination and type of service are those of the outer IP header; the flags are the
  "key present" flag.
\<close>

theorem rcv_delivers_tunnel_key:
  "\<exists>tk. new_calls k (vxlan_rcv P sock skb vx_vni k) = [Call_ovs_vport_receive (vs_data sock) skb tk]
     \<and> be64_to_cpu P (tun_id tk) = ucast (drop_bit 8 (ntohl P vx_vni))
     \<and> unat (be64_to_cpu P (tun_id tk)) = unat (ntohl P vx_vni) div 2 ^ 8
     \<and> ipv4_src tk = ip_saddr (skb_iph skb)
     \<and> ipv4_dst tk = ip_daddr (skb_iph skb)
     \<and> ipv4_tos tk = ip_tos (skb_iph skb)
     \<and> tun_flags tk = TUNNEL_KEY P
     \<and> tun_flags tk AND TUNNEL_KEY P = TUNNEL_KEY P"
  by (simp add: vxlan_rcv_def ovs_vport_receive_def log_call_def new_calls_log Let_def
      ovs_flow_tun_key_init_def be64_to_cpu_cpu_to_be64 tun_id_drop_unat)

text \<open>
  C3.  A packet without a tunnel key: \<open>vxlan_tnl_send\<close> returns \<open>-EINVAL\<close> and leaves the
  kernel as it was; no route is looked up, nothing is transmitted, no call is made at all.
\<close>

theorem send_without_tun_key:
  assumes "skb_tun_key skb = None"
  shows "vxlan_tnl_send P E vp skb k = (- EINVAL P, k)
       \<and> new_calls k (snd (vxlan_tnl_send P E vp skb k)) = []"
  using assms by (simp add: vxlan_tnl_send_def new_calls_same)

theorem send_without_tun_key_witness:
  "skb_tun_key (skb0\<lparr>skb_tun_key := None\<rparr>) = None
   \<and> vxlan_tnl_send linux_le env_ok vport0 (skb0\<lparr>skb_tun_key := None\<rparr>) kernel0 = (- 22, kernel0)
   \<and> new_calls kernel0 (snd (vxlan_tnl_send linux_le env_ok vport0 (skb0\<lparr>skb_tun_key := None\<rparr>) kernel0)) = []"
proof -
  have h: "skb_tun_key (skb0\<lparr>skb_tun_key := None\<rparr>) = None" by simp
  have e: "EINVAL linux_le = 22" by (simp add: linux_le_def)
  note t = send_without_tun_key [OF h, of linux_le env_ok vport0 kernel0, unfolded e]
  show ?thesis
    by (intro conjI) (fact h t [THEN conjunct1] t [THEN conjunct2])+
qed

text \<open>
  C4.  Options that are absent, that hold no destination port, or whose destination port
  is not two bytes wide: \<open>vxlan_tnl_create\<close> returns the error pointer \<open>-EINVAL\<close> and leaves
  the kernel as it was; nothing is allocated and no socket is opened.
\<close>

theorem create_without_valid_dst_port:
  assumes "parms_options parms = None
     \<or> (\<exists>opts. parms_options parms = Some opts
           \<and> (nla_find_nested opts (OVS_TUNNEL_ATTR_DST_PORT P) = None
              \<or> (\<exists>a. nla_find_nested opts (OVS_TUNNEL_ATTR_DST_PORT P) = Some a \<and> nla_len a \<noteq> 2)))"
  shows "vxlan_tnl_create P E parms k = (Inl (- EINVAL P), k)
       \<and> new_calls k (snd (vxlan_tnl_create P E parms k)) = []"
  using assms by (auto simp add: vxlan_tnl_create_def new_calls_same)

theorem create_without_valid_dst_port_witness:
  "parms_options parms_wide_port = Some [\<lparr>nla_type = 1, nla_payload = [0xB5, 0x12, 0, 0]\<rparr>]
   \<and> nla_find_nested [\<lparr>nla_type = 1, nla_payload = [0xB5, 0x12, 0, 0]\<rparr>] (OVS_TUNNEL_ATTR_DST_PORT linux_le)
        = Some \<lparr>nla_type = 1, nla_payload = [0xB5, 0x12, 0, 0]\<rparr>
   \<and> nla_len \<lparr>nla_type = 1, nla_payload = [0xB5, 0x12, 0, 0]\<rparr> \<noteq> 2
   \<and> vxlan_tnl_create linux_le env_ok parms_wide_port kernel0 = (Inl (- 22), kernel0)
   \<and> new_calls kernel0 (snd (vxlan_tnl_create linux_le env_ok parms_wide_port kernel0)) = []"
proof -
  let ?a = "\<lparr>nla_type = 1, nla_payload = [0xB5, 0x12, 0, 0]\<rparr> :: nlattr"
  have h1: "parms_options parms_wide_port = Some [?a]" by (simp add: parms_wide_port_def)
  have h2: "nla_find_nested [?a] (OVS_TUNNEL_ATTR_DST_PORT linux_le) = Some ?a"
    by (simp add: nla_find_nested_def linux_le_def)
  have h3: "nla_len ?a \<noteq> 2" by (simp add: nla_len_def)
  have h: "parms_options parms_wide_port = None
     \<or> (\<exists>opts. parms_options parms_wide_port = Some opts
           \<and> (nla_find_nested opts (OVS_TUNNEL_ATTR_DST_PORT linux_le) = None
              \<or> (\<exists>a. nla_find_nested opts (OVS_TUNNEL_ATTR_DST_PORT linux_le) = Some a \<and> nla_len a \<noteq> 2)))"
    using h1 h2 h3 by (intro disjI2 exI [of _ "[?a]"] conjI exI [of _ ?a])
  have e: "EINVAL linux_le = 22" by (simp add: linux_le_def)
  note t = create_without_valid_dst_port [OF h, of env_ok kernel0, unfolded e]
  show ?thesis
    by (intro conjI) (fact h1 h2 h3 t [THEN conjunct1] t [THEN conjunct2])+
qed


text \<open>
  C5.  When the options are valid, the vport is allocated and the socket cannot be opened,
  \<open>vxlan_tnl_create\<close> returns the error of the socket layer, having made three calls: the
  allocation, the attempt to open the socket, and the release of the very object it had
  allocated.  Afterwards the allocated vports and the open sockets are those from before.
\<close>

theorem create_socket_failure_frees_vport:
  assumes "parms_options parms = Some opts"
    and "nla_find_nested opts (OVS_TUNNEL_ATTR_DST_PORT P) = Some a"
    and "nla_len a = 2"
    and "vport_alloc_err E = None"
    and "sock_add_err E (dp_net (parms_dp parms)) (htons P (nla_get_u16 P a)) = Some e"
  shows "\<exists>k'. vxlan_tnl_create P E parms k = (Inl e, k')
           \<and> live_vports k' = live_vports k
           \<and> live_socks k' = live_socks k
           \<and> new_calls k k' =
               [Call_ovs_vport_alloc,
                Call_vxlan_sock_add (dp_net (parms_dp parms)) (htons P (nla_get_u16 P a))
                  (fresh_addr (live_vports k)),
                Call_ovs_vport_free (fresh_addr (live_vports k))]"
proof -
  have "removeAll (fresh_addr (live_vports k)) (live_vports k) = live_vports k"
    using fresh_addr_fresh [of "live_vports k"] by simp
  then show ?thesis
    using assms
    by (simp add: vxlan_tnl_create_def ovs_vport_alloc_def vxlan_sock_add_def ovs_vport_free_def
        ovs_dp_get_net_def log_call_def new_calls_def Let_def)
qed

theorem create_socket_failure_frees_vport_witness:
  "parms_options parms_vxlan0 = Some [dst_port_4789]
   \<and> nla_find_nested [dst_port_4789] (OVS_TUNNEL_ATTR_DST_PORT linux_le) = Some dst_port_4789
   \<and> nla_len dst_port_4789 = 2
   \<and> vport_alloc_err env_no_sock = None
   \<and> sock_add_err env_no_sock (dp_net (parms_dp parms_vxlan0)) (htons linux_le (nla_get_u16 linux_le dst_port_4789)) = Some (- 98)
   \<and> (\<exists>k'. vxlan_tnl_create linux_le env_no_sock parms_vxlan0 kernel0 = (Inl (- 98), k')
           \<and> live_vports k' = live_vports kernel0
           \<and> live_socks k' = live_socks kernel0
           \<and> new_calls kernel0 k' =
               [Call_ovs_vport_alloc,
                Call_vxlan_sock_add (dp_net (parms_dp parms_vxlan0)) (htons linux_le (nla_get_u16 linux_le dst_port_4789))
                  (fresh_addr (live_vports kernel0)),
                Call_ovs_vport_free (fresh_addr (live_vports kernel0))])"
proof -
  have h1: "parms_options parms_vxlan0 = Some [dst_port_4789]" by (simp add: parms_vxlan0_def)
  have h2: "nla_find_nested [dst_port_4789] (OVS_TUNNEL_ATTR_DST_PORT linux_le) = Some dst_port_4789"
    by (simp add: nla_find_nested_def linux_le_def dst_port_4789_def)
  have h3: "nla_len dst_port_4789 = 2" by (simp add: nla_len_def dst_port_4789_def)
  have h4: "vport_alloc_err env_no_sock = None" by (simp add: env_no_sock_def env_ok_def)
  have h5: "sock_add_err env_no_sock (dp_net (parms_dp parms_vxlan0))
      (htons linux_le (nla_get_u16 linux_le dst_port_4789)) = Some (- 98)"
    by (simp add: env_no_sock_def)
  show ?thesis
    by (intro conjI) (fact h1 h2 h3 h4 h5 create_socket_failure_frees_vport [OF h1 h2 h3 h4 h5, of kernel0])+
qed

text \<open>
  C6.  With a tunnel key and a route, the \<open>df\<close> argument of the transmission carries the
  "don't fragment" flag \<open>IP_DF\<close> (in network order) exactly when the flags of the tunnel
  key have a bit in common with \<open>TUNNEL_DONT_FRAGMENT\<close>, and is zero exactly when they have
  none.  (\<open>IP_DF\<close> is a flag, so it is not zero.)
\<close>

theorem send_df_from_tunnel_flags:
  assumes "skb_tun_key skb = Some tk"
    and "find_route_res E (dp_net (vp_dp vp)) (ipv4_src tk) (ipv4_dst tk) (IPPROTO_UDP P)
           (ipv4_tos tk) (skb_mark skb) = Inr (rt, sa)"
    and "IP_DF P \<noteq> 0"
  shows "\<exists>a. xmit_calls (new_calls k (snd (vxlan_tnl_send P E vp skb k))) = [a]
           \<and> (ntohs P (xm_df a) = IP_DF P \<longleftrightarrow> tun_flags tk AND TUNNEL_DONT_FRAGMENT P \<noteq> 0)
           \<and> (xm_df a = 0 \<longleftrightarrow> tun_flags tk AND TUNNEL_DONT_FRAGMENT P = 0)"
proof -
  let ?a = "send_args P E vp skb tk rt sa"
  have 1: "xmit_calls (new_calls k (snd (vxlan_tnl_send P E vp skb k))) = [?a]"
    using assms(1,2) by (rule send_routed_xmit_calls)
  have z: "ntohs P 0 = 0" by (simp add: ntohs_def swab16_def)
  have 2: "ntohs P (xm_df ?a) = IP_DF P \<longleftrightarrow> tun_flags tk AND TUNNEL_DONT_FRAGMENT P \<noteq> 0"
    using assms(3) by (auto simp add: send_args_def ntohs_htons z)
  have 3: "xm_df ?a = 0 \<longleftrightarrow> tun_flags tk AND TUNNEL_DONT_FRAGMENT P = 0"
    using assms(3) by (simp add: send_args_def htons_eq_0_iff)
  show ?thesis
    by (intro exI [of _ ?a] conjI) (fact 1 2 3)+
qed

theorem send_df_from_tunnel_flags_witness:
  "skb_tun_key skb0 = Some tun_key0
   \<and> IP_DF linux_le \<noteq> 0
   \<and> tun_flags tun_key0 AND TUNNEL_DONT_FRAGMENT linux_le \<noteq> 0
   \<and> (\<exists>a. xmit_calls (new_calls kernel0 (snd (vxlan_tnl_send linux_le env_ok vport0 skb0 kernel0))) = [a]
           \<and> (ntohs linux_le (xm_df a) = IP_DF linux_le \<longleftrightarrow> tun_flags tun_key0 AND TUNNEL_DONT_FRAGMENT linux_le \<noteq> 0)
           \<and> (xm_df a = 0 \<longleftrightarrow> tun_flags tun_key0 AND TUNNEL_DONT_FRAGMENT linux_le = 0))"
proof -
  have h1: "skb_tun_key skb0 = Some tun_key0" by (simp add: skb0_def)
  have h2: "find_route_res env_ok (dp_net (vp_dp vport0)) (ipv4_src tun_key0) (ipv4_dst tun_key0)
      (IPPROTO_UDP linux_le) (ipv4_tos tun_key0) (skb_mark skb0) = Inr (1, 0x0A000001)"
    by (simp add: env_ok_def)
  have h3: "IP_DF linux_le \<noteq> 0" by (simp add: linux_le_def)
  have f: "tun_flags tun_key0 AND TUNNEL_DONT_FRAGMENT linux_le \<noteq> 0"
    by (simp add: tun_key0_def linux_le_def)
  show ?thesis
    by (intro conjI) (fact h1 h3 f send_df_from_tunnel_flags [OF h1 h2 h3, of kernel0])+
qed

text \<open>
  C7.  The source port that \<open>vxlan_tnl_send\<close> passes on is the one \<open>vxlan_src_port\<close>
  computes from the port range of the namespace and the packet.  Two transmissions, from
  any ports in any state and with any tunnel keys, of packets of the same inner flow under
  the same range carry the same source port, and that port, read in host order, lies in
  the range, provided the range is one of 16-bit ports with its lower end at or below its
  upper end.
\<close>

theorem send_src_port_flow_affinity:
  assumes "skb_tun_key skb = Some tk"
    and "find_route_res E (dp_net (vp_dp vp)) (ipv4_src tk) (ipv4_dst tk) (IPPROTO_UDP P)
           (ipv4_tos tk) (skb_mark skb) = Inr (rt, sa)"
    and "skb_tun_key skb' = Some tk'"
    and "find_route_res E (dp_net (vp_dp vp')) (ipv4_src tk') (ipv4_dst tk') (IPPROTO_UDP P)
           (ipv4_tos tk') (skb_mark skb') = Inr (rt', sa')"
    and "skb_flow skb' = skb_flow skb"
    and "ip_local_port_range (dp_net (vp_dp vp)) = (port_min, port_max)"
    and "ip_local_port_range (dp_net (vp_dp vp')) = (port_min, port_max)"
    and "0 \<le> port_min" and "port_min \<le> port_max" and "port_max \<le> 65535"
  shows "\<exists>a a'. xmit_calls (new_calls k (snd (vxlan_tnl_send P E vp skb k))) = [a]
           \<and> xmit_calls (new_calls k' (snd (vxlan_tnl_send P E vp' skb' k'))) = [a']
           \<and> xm_src_port a' = xm_src_port a
           \<and> port_min \<le> uint (ntohs P (xm_src_port a))
           \<and> uint (ntohs P (xm_src_port a)) \<le> port_max"
proof -
  let ?a = "send_args P E vp skb tk rt sa"
  let ?a' = "send_args P E vp' skb' tk' rt' sa'"
  have 1: "xmit_calls (new_calls k (snd (vxlan_tnl_send P E vp skb k))) = [?a]"
    using assms(1,2) by (rule send_routed_xmit_calls)
  have 2: "xmit_calls (new_calls k' (snd (vxlan_tnl_send P E vp' skb' k'))) = [?a']"
    using assms(3,4) by (rule send_routed_xmit_calls)
  have p: "xm_src_port ?a = vxlan_src_port P E (word_of_int port_min) (word_of_int port_max) skb"
    by (simp add: send_args_def assms(6) vxlan_src_port_def)
  have p': "xm_src_port ?a' = vxlan_src_port P E (word_of_int port_min) (word_of_int port_max) skb'"
    by (simp add: send_args_def assms(7) vxlan_src_port_def)
  have 3: "xm_src_port ?a' = xm_src_port ?a"
    unfolding p p' by (simp add: vxlan_src_port_def assms(5))
  note b = src_port_bounds [OF assms(8,9,10), of P E skb, folded p]
  show ?thesis
    by (intro exI [of _ ?a] exI [of _ ?a'] conjI) (fact 1 2 3 b [THEN conjunct1] b [THEN conjunct2])+
qed

theorem send_src_port_flow_affinity_witness:
  "skb_tun_key skb0 = Some tun_key0
   \<and> skb_tun_key (skb0\<lparr>skb_data := [1, 2, 3], skb_mark := 7\<rparr>) = Some tun_key0
   \<and> skb_flow (skb0\<lparr>skb_data := [1, 2, 3], skb_mark := 7\<rparr>) = skb_flow skb0
   \<and> ip_local_port_range (dp_net (vp_dp vport0)) = (32768, 61000)
   \<and> (\<exists>a a'. xmit_calls (new_calls kernel0 (snd (vxlan_tnl_send linux_le env_ok vport0 skb0 kernel0))) = [a]
           \<and> xmit_calls (new_calls kernel0 (snd (vxlan_tnl_send linux_le env_ok vport0
                 (skb0\<lparr>skb_data := [1, 2, 3], skb_mark := 7\<rparr>) kernel0))) = [a']
           \<and> xm_src_port a' = xm_src_port a
           \<and> 32768 \<le> uint (ntohs linux_le (xm_src_port a))
           \<and> uint (ntohs linux_le (xm_src_port a)) \<le> 61000)"
proof -
  let ?skb' = "skb0\<lparr>skb_data := [1, 2, 3], skb_mark := 7\<rparr>"
  have h1: "skb_tun_key skb0 = Some tun_key0" by (simp add: skb0_def)
  have h2: "find_route_res env_ok (dp_net (vp_dp vport0)) (ipv4_src tun_key0) (ipv4_dst tun_key0)
      (IPPROTO_UDP linux_le) (ipv4_tos tun_key0) (skb_mark skb0) = Inr (1, 0x0A000001)"
    by (simp add: env_ok_def)
  have h3: "skb_tun_key ?skb' = Some tun_key0" by (simp add: skb0_def)
  have h4: "find_route_res env_ok (dp_net (vp_dp vport0)) (ipv4_src tun_key0) (ipv4_dst tun_key0)
      (IPPROTO_UDP linux_le) (ipv4_tos tun_key0) (skb_mark ?skb') = Inr (1, 0x0A000001)"
    by (simp add: env_ok_def)
  have h5: "skb_flow ?skb' = skb_flow skb0" by simp
  have h6: "ip_local_port_range (dp_net (vp_dp vport0)) = (32768, 61000)"
    by (simp add: vport0_def dp0_def net0_def)
  have h8: "(0::int) \<le> 32768" and h9: "(32768::int) \<le> 61000" and h10: "(61000::int) \<le> 65535"
    by simp_all
  show ?thesis
    by (intro conjI)
      (fact h1 h3 h5 h6 send_src_port_flow_affinity [OF h1 h2 h3 h4 h5 h6 h6 h8 h9 h10, of kernel0 kernel0])+
qed




text \<open>
  C9.  \<open>vxlan_rcv\<close> never looks at the low 8 bits of the VNI field: two fields that agree
  on the upper 24 bits (in network order) lead to the same state, hence to the same
  delivery, and a delivery is made whatever those bits are.
\<close>

theorem rcv_ignores_reserved_bits:
  assumes "drop_bit 8 (ntohl P v1) = drop_bit 8 (ntohl P v2)"
  shows "vxlan_rcv P sock skb v1 k = vxlan_rcv P sock skb v2 k
       \<and> received (new_calls k (vxlan_rcv P sock skb v1 k)) = received (new_calls k (vxlan_rcv P sock skb v2 k))
       \<and> length (received (new_calls k (vxlan_rcv P sock skb v1 k))) = 1"
  using assms by (simp add: rcv_received) (simp add: vxlan_rcv_def)

theorem rcv_ignores_reserved_bits_witness:
  "drop_bit 8 (ntohl linux_le 0x00563412) = drop_bit 8 (ntohl linux_le 0xFF563412)
   \<and> ntohl linux_le 0xFF563412 AND 0xFF \<noteq> 0
   \<and> vxlan_rcv linux_le (vs (vp_priv vport0)) skb0 0x00563412 kernel0
     = vxlan_rcv linux_le (vs (vp_priv vport0)) skb0 0xFF563412 kernel0
   \<and> received (new_calls kernel0 (vxlan_rcv linux_le (vs (vp_priv vport0)) skb0 0x00563412 kernel0))
     = received (new_calls kernel0 (vxlan_rcv linux_le (vs (vp_priv vport0)) skb0 0xFF563412 kernel0))
   \<and> length (received (new_calls kernel0 (vxlan_rcv linux_le (vs (vp_priv vport0)) skb0 0x00563412 kernel0))) = 1"
proof -
  have h: "drop_bit 8 (ntohl linux_le 0x00563412) = drop_bit 8 (ntohl linux_le 0xFF563412)"
    by (simp add: ntohl_def linux_le_def swab32_def)
  have r: "ntohl linux_le 0xFF563412 AND 0xFF \<noteq> 0"
    by (simp add: ntohl_def linux_le_def swab32_def)
  note t = rcv_ignores_reserved_bits [OF h, of "vs (vp_priv vport0)" skb0 kernel0]
  show ?thesis
    by (intro conjI) (fact h r t [THEN conjunct1] t [THEN conjunct2, THEN conjunct1] t [THEN conjunct2, THEN conjunct2])+
qed

text \<open>
  C10.  The VNI field that is sent, read in network order, is the tunnel id times \<open>2\<^sup>8\<close>
  modulo \<open>2\<^sup>3\<^sup>2\<close>, that is, the low 24 bits of the tunnel id shifted left by 8.  A second key
  that differs from the first only in a tunnel id congruent modulo \<open>2\<^sup>2\<^sup>4\<close> leads to the same
  arguments of the transmission, apart from the key that stays attached to the packet
  buffer; the frame is the same.
\<close>

theorem send_vni_keeps_low_24_bits:
  assumes "skb_tun_key skb = Some tk"
    and "find_route_res E (dp_net (vp_dp vp)) (ipv4_src tk) (ipv4_dst tk) (IPPROTO_UDP P)
           (ipv4_tos tk) (skb_mark skb) = Inr (rt, sa)"
    and "unat (be64_to_cpu P t') mod 2 ^ 24 = unat (be64_to_cpu P (tun_id tk)) mod 2 ^ 24"
  shows "\<exists>a a'. xmit_calls (new_calls k (snd (vxlan_tnl_send P E vp skb k))) = [a]
           \<and> xmit_calls (new_calls k
                (snd (vxlan_tnl_send P E vp (skb\<lparr>skb_tun_key := Some (tk\<lparr>tun_id := t'\<rparr>)\<rparr>) k))) = [a']
           \<and> unat (ntohl P (xm_vni a)) = (unat (be64_to_cpu P (tun_id tk)) * 2 ^ 8) mod 2 ^ 32
           \<and> unat (ntohl P (xm_vni a)) = (unat (be64_to_cpu P (tun_id tk)) mod 2 ^ 24) * 2 ^ 8
           \<and> xm_vni a' = xm_vni a
           \<and> a'\<lparr>xm_skb := xm_skb a\<rparr> = a
           \<and> skb_data (xm_skb a') = skb_data (xm_skb a)"
proof -
  let ?skb' = "skb\<lparr>skb_tun_key := Some (tk\<lparr>tun_id := t'\<rparr>)\<rparr>"
  let ?a = "send_args P E vp skb tk rt sa"
  let ?a' = "send_args P E vp ?skb' (tk\<lparr>tun_id := t'\<rparr>) rt sa"
  have 1: "xmit_calls (new_calls k (snd (vxlan_tnl_send P E vp skb k))) = [?a]"
    using assms(1,2) by (rule send_routed_xmit_calls)
  have k': "skb_tun_key ?skb' = Some (tk\<lparr>tun_id := t'\<rparr>)" by simp
  have r': "find_route_res E (dp_net (vp_dp vp)) (ipv4_src (tk\<lparr>tun_id := t'\<rparr>)) (ipv4_dst (tk\<lparr>tun_id := t'\<rparr>))
      (IPPROTO_UDP P) (ipv4_tos (tk\<lparr>tun_id := t'\<rparr>)) (skb_mark ?skb') = Inr (rt, sa)"
    using assms(2) by simp
  have 2: "xmit_calls (new_calls k (snd (vxlan_tnl_send P E vp ?skb' k))) = [?a']"
    using k' r' by (rule send_routed_xmit_calls)
  have vni: "ntohl P (xm_vni ?a) = ucast (push_bit 8 (be64_to_cpu P (tun_id tk)))"
    by (simp add: send_args_def ntohl_htonl)
  have 3: "unat (ntohl P (xm_vni ?a)) = (unat (be64_to_cpu P (tun_id tk)) * 2 ^ 8) mod 2 ^ 32"
    unfolding vni by (rule vni_field_unat)
  have 4: "unat (ntohl P (xm_vni ?a)) = (unat (be64_to_cpu P (tun_id tk)) mod 2 ^ 24) * 2 ^ 8"
    unfolding 3 by (rule shift_mod_nat)
  have eq: "(ucast (push_bit 8 (be64_to_cpu P t')) :: 32 word) = ucast (push_bit 8 (be64_to_cpu P (tun_id tk)))"
    using assms(3) by (rule vni_field_congruent)
  have 5: "xm_vni ?a' = xm_vni ?a"
    by (simp add: send_args_def eq)
  have 6: "?a'\<lparr>xm_skb := xm_skb ?a\<rparr> = ?a"
    by (simp add: send_args_def eq vxlan_src_port_def)
  have 7: "skb_data (xm_skb ?a') = skb_data (xm_skb ?a)"
    by (simp add: send_args_def)
  show ?thesis
    by (intro exI [of _ ?a] exI [of _ ?a'] conjI) (fact 1 2 3 4 5 6 7)+
qed

theorem send_vni_keeps_low_24_bits_witness:
  "skb_tun_key skb0 = Some tun_key0
   \<and> unat (be64_to_cpu linux_le 0x8813000100000000) = 2 ^ 24 + 5000
   \<and> unat (be64_to_cpu linux_le (tun_id tun_key0)) = 5000
   \<and> (\<exists>a a'. xmit_calls (new_calls kernel0 (snd (vxlan_tnl_send linux_le env_ok vport0 skb0 kernel0))) = [a]
           \<and> xmit_calls (new_calls kernel0
                (snd (vxlan_tnl_send linux_le env_ok vport0
                   (skb0\<lparr>skb_tun_key := Some (tun_key0\<lparr>tun_id := 0x8813000100000000\<rparr>)\<rparr>) kernel0))) = [a']
           \<and> unat (ntohl linux_le (xm_vni a)) = (unat (be64_to_cpu linux_le (tun_id tun_key0)) * 2 ^ 8) mod 2 ^ 32
           \<and> unat (ntohl linux_le (xm_vni a)) = (unat (be64_to_cpu linux_le (tun_id tun_key0)) mod 2 ^ 24) * 2 ^ 8
           \<and> xm_vni a' = xm_vni a
           \<and> a'\<lparr>xm_skb := xm_skb a\<rparr> = a
           \<and> skb_data (xm_skb a') = skb_data (xm_skb a))"
proof -
  have h1: "skb_tun_key skb0 = Some tun_key0" by (simp add: skb0_def)
  have h2: "find_route_res env_ok (dp_net (vp_dp vport0)) (ipv4_src tun_key0) (ipv4_dst tun_key0)
      (IPPROTO_UDP linux_le) (ipv4_tos tun_key0) (skb_mark skb0) = Inr (1, 0x0A000001)"
    by (simp add: env_ok_def)
  have i1: "unat (be64_to_cpu linux_le 0x8813000100000000) = 2 ^ 24 + 5000"
    by (simp add: be64_to_cpu_def linux_le_def swab64_def)
  have i2: "unat (be64_to_cpu linux_le (tun_id tun_key0)) = 5000"
    by (simp add: be64_to_cpu_def linux_le_def tun_key0_def swab64_def)
  have h3: "unat (be64_to_cpu linux_le 0x8813000100000000) mod 2 ^ 24
      = unat (be64_to_cpu linux_le (tun_id tun_key0)) mod 2 ^ 24"
    unfolding i1 i2 by simp
  show ?thesis
    by (intro conjI) (fact h1 i1 i2 send_vni_keeps_low_24_bits [OF h1 h2 h3, of kernel0])+
qed

end
